theory Spec2Isabelle
  imports Main
begin

section \<open>Python values\<close>

text \<open>
  The values that \<^verbatim>\<open>response.json()\<close> can return and that the code passes around:
  \<^verbatim>\<open>None\<close>, booleans, integers, strings, lists and dicts with string keys. A dict is
  an association list read with \<open>map_of\<close> (the first binding of a key is the one seen).
  A string is a list of 8-bit characters, so the code points covered are 0 to 255.
  A JSON number with a fraction or an exponent decodes to a Python float, which this
  type does not represent.
\<close>

datatype pyval =
    PNone
  | PBool bool
  | PInt int
  | PStr string
  | PList "pyval list"
  | PDict "(string \<times> pyval) list"

text \<open>Python's truth value, as tested by \<^verbatim>\<open>if x\<close> and \<^verbatim>\<open>x and y\<close>.\<close>

fun py_truthy :: "pyval \<Rightarrow> bool" where
  "py_truthy PNone = False"
| "py_truthy (PBool b) = b"
| "py_truthy (PInt i) = (i \<noteq> 0)"
| "py_truthy (PStr s) = (s \<noteq> [])"
| "py_truthy (PList xs) = (xs \<noteq> [])"
| "py_truthy (PDict kvs) = (kvs \<noteq> [])"

text \<open>The name of a value's type, as it appears in the interpreter's error messages.\<close>

fun type_name :: "pyval \<Rightarrow> string" where
  "type_name PNone = ''NoneType''"
| "type_name (PBool b) = ''bool''"
| "type_name (PInt i) = ''int''"
| "type_name (PStr s) = ''str''"
| "type_name (PList xs) = ''list''"
| "type_name (PDict kvs) = ''dict''"

subsection \<open>\<^verbatim>\<open>str()\<close> and \<^verbatim>\<open>repr()\<close>\<close>

definition digit_char :: "nat \<Rightarrow> char" where
  "digit_char d = char_of (48 + d)"

function show_nat :: "nat \<Rightarrow> string" where
  "show_nat n = (if n < 10 then [digit_char n] else show_nat (n div 10) @ [digit_char (n mod 10)])"
  by pat_completeness auto
termination
  by (relation "measure id") auto

definition show_int :: "int \<Rightarrow> string" where
  "show_int i = (if i < 0 then CHR ''-'' # show_nat (nat (- i)) else show_nat (nat i))"

definition hex_char :: "nat \<Rightarrow> char" where
  "hex_char d = (if d < 10 then char_of (48 + d) else char_of (87 + d))"

text \<open>
  \<^verbatim>\<open>repr\<close> of a string: single quotes unless the string has a single quote and no
  double quote; the quote and the backslash are escaped, tab, newline and return are
  written \<^verbatim>\<open>\t \n \r\<close>, and every other non-printable character as \<^verbatim>\<open>\xhh\<close>.
\<close>

definition printable :: "nat \<Rightarrow> bool" where
  "printable n = ((32 \<le> n \<and> n < 127) \<or> (161 \<le> n \<and> n \<noteq> 173))"

definition repr_char :: "char \<Rightarrow> char \<Rightarrow> string" where
  "repr_char quote c =
     (let n = (of_char c :: nat) in
      if c = quote \<or> c = CHR 0x5C then [CHR 0x5C, c]
      else if n = 9 then [CHR 0x5C, CHR ''t'']
      else if n = 10 then [CHR 0x5C, CHR ''n'']
      else if n = 13 then [CHR 0x5C, CHR ''r'']
      else if printable n then [c]
      else [CHR 0x5C, CHR ''x'', hex_char (n div 16), hex_char (n mod 16)])"

definition repr_str :: "string \<Rightarrow> string" where
  "repr_str s =
     (let quote = (if CHR 0x27 \<in> set s \<and> CHR 0x22 \<notin> set s then CHR 0x22 else CHR 0x27)
      in [quote] @ concat (map (repr_char quote) s) @ [quote])"

fun join :: "string \<Rightarrow> string list \<Rightarrow> string" where
  "join sep [] = []"
| "join sep [x] = x"
| "join sep (x # y # ys) = x @ sep @ join sep (y # ys)"

fun py_repr :: "pyval \<Rightarrow> string" where
  "py_repr PNone = ''None''"
| "py_repr (PBool b) = (if b then ''True'' else ''False'')"
| "py_repr (PInt i) = show_int i"
| "py_repr (PStr s) = repr_str s"
| "py_repr (PList xs) = ''['' @ join '', '' (map py_repr xs) @ '']''"
| "py_repr (PDict kvs) =
     ''{'' @ join '', '' (map (\<lambda>kv. repr_str (fst kv) @ '': '' @ py_repr (snd kv)) kvs) @ ''}''"

text \<open>What an f-string writes for \<^verbatim>\<open>{v}\<close>: the string itself, the \<^verbatim>\<open>repr\<close> of anything else.\<close>

fun py_str :: "pyval \<Rightarrow> string" where
  "py_str (PStr s) = s"
| "py_str v = py_repr v"

section \<open>Exceptions\<close>

text \<open>
  The exceptions the code can meet, each an instance of \<^verbatim>\<open>Exception\<close> (so each is caught
  by \<^verbatim>\<open>except Exception\<close>). \<open>OtherError\<close> stands for whatever else the HTTP client or the
  JSON decoder raises, with its text. An interrupt (\<^verbatim>\<open>KeyboardInterrupt\<close>, \<^verbatim>\<open>SystemExit\<close>)
  is not an \<^verbatim>\<open>Exception\<close> and is not modelled.
\<close>

datatype exn =
    AttributeError string
  | KeyError string
  | TypeError string
  | ValueError string
  | OtherError string

text \<open>\<^verbatim>\<open>str(e)\<close>: the message, and for a \<^verbatim>\<open>KeyError\<close> the \<^verbatim>\<open>repr\<close> of the missing key.\<close>

fun str_exn :: "exn \<Rightarrow> string" where
  "str_exn (AttributeError m) = m"
| "str_exn (KeyError k) = repr_str k"
| "str_exn (TypeError m) = m"
| "str_exn (ValueError m) = m"
| "str_exn (OtherError m) = m"

definition quoted :: "string \<Rightarrow> string" where
  "quoted s = [CHR 0x27] @ s @ [CHR 0x27]"

definition no_attribute :: "pyval \<Rightarrow> string \<Rightarrow> exn" where
  "no_attribute v attr =
     AttributeError (quoted (type_name v) @ '' object has no attribute '' @ quoted attr)"

text \<open>\<^verbatim>\<open>obj.get(key, default)\<close>: a dict method; any other value has no attribute \<^verbatim>\<open>get\<close>.\<close>

fun dict_get :: "pyval \<Rightarrow> string \<Rightarrow> pyval \<Rightarrow> exn + pyval" where
  "dict_get (PDict kvs) key dflt = (case map_of kvs key of None \<Rightarrow> Inr dflt | Some v \<Rightarrow> Inr v)"
| "dict_get v key dflt = Inl (no_attribute v ''get'')"

text \<open>\<^verbatim>\<open>obj[key]\<close> with a string key.\<close>

fun subscript :: "pyval \<Rightarrow> string \<Rightarrow> exn + pyval" where
  "subscript (PDict kvs) key = (case map_of kvs key of None \<Rightarrow> Inl (KeyError key) | Some v \<Rightarrow> Inr v)"
| "subscript (PStr s) key =
     Inl (TypeError (''string indices must be integers, not '' @ quoted ''str''))"
| "subscript (PList xs) key = Inl (TypeError ''list indices must be integers or slices, not str'')"
| "subscript v key = Inl (TypeError (quoted (type_name v) @ '' object is not subscriptable''))"

section \<open>\<^verbatim>\<open>urllib.parse.urlparse\<close>\<close>

text \<open>
  The part of the standard library's \<^verbatim>\<open>urlparse\<close> that the registry reads: the scheme
  and the network location, after CPython 3.12's \<^verbatim>\<open>urlsplit\<close>. Leading control
  characters and spaces are stripped, tab, newline and return are removed, a scheme is
  split off at the first colon when it starts with an ASCII letter and has only scheme
  characters, and after \<^verbatim>\<open>//\<close> the network location runs up to the first of
  \<^verbatim>\<open>/ ? #\<close>. A network location with only one of the two square brackets raises
  \<^verbatim>\<open>ValueError\<close>. With both brackets present the library validates the bracketed host as
  an IP address; that validation is the parameter \<open>chk\<close>, which gives the exception
  it raises, if any. The library's last check (characters that normalise under NFKC to
  one of \<^verbatim>\<open>/ ? # @ :\<close>) never fires on code points below 256 and is left out.
\<close>

type_synonym netloc_check = "string \<Rightarrow> exn option"

definition is_ascii_alpha :: "char \<Rightarrow> bool" where
  "is_ascii_alpha c =
     (let n = (of_char c :: nat) in (65 \<le> n \<and> n \<le> 90) \<or> (97 \<le> n \<and> n \<le> 122))"

definition is_scheme_char :: "char \<Rightarrow> bool" where
  "is_scheme_char c =
     (let n = (of_char c :: nat) in
      is_ascii_alpha c \<or> (48 \<le> n \<and> n \<le> 57) \<or> c = CHR ''+'' \<or> c = CHR ''-'' \<or> c = CHR ''.'')"

definition ascii_lower :: "char \<Rightarrow> char" where
  "ascii_lower c =
     (let n = (of_char c :: nat) in if 65 \<le> n \<and> n \<le> 90 then char_of (n + 32) else c)"

definition lstrip_c0_or_space :: "string \<Rightarrow> string" where
  "lstrip_c0_or_space url = dropWhile (\<lambda>c. (of_char c :: nat) \<le> 32) url"

definition remove_unsafe_bytes :: "string \<Rightarrow> string" where
  "remove_unsafe_bytes url =
     filter (\<lambda>c. (of_char c :: nat) \<noteq> 9 \<and> (of_char c :: nat) \<noteq> 13 \<and> (of_char c :: nat) \<noteq> 10) url"

definition split_scheme :: "string \<Rightarrow> string \<times> string" where
  "split_scheme url =
     (let pre = takeWhile (\<lambda>c. c \<noteq> CHR '':'') url in
      if length pre < length url \<and> pre \<noteq> [] \<and> is_ascii_alpha (hd pre) \<and> list_all is_scheme_char pre
      then (map ascii_lower pre, drop (Suc (length pre)) url)
      else ([], url))"

definition is_netloc_delim :: "char \<Rightarrow> bool" where
  "is_netloc_delim c = (c = CHR ''/'' \<or> c = CHR ''?'' \<or> c = CHR ''#'')"

definition splitnetloc :: "string \<Rightarrow> string" where
  "splitnetloc url = takeWhile (\<lambda>c. \<not> is_netloc_delim c) (drop 2 url)"

definition urlsplit :: "netloc_check \<Rightarrow> string \<Rightarrow> exn + (string \<times> string)" where
  "urlsplit chk url0 =
     (let (scheme, url) = split_scheme (remove_unsafe_bytes (lstrip_c0_or_space url0)) in
      if take 2 url = ''//'' then
        (let netloc = splitnetloc url;
             lb = (CHR ''['' \<in> set netloc);
             rb = (CHR '']'' \<in> set netloc)
         in if lb \<noteq> rb then Inl (ValueError ''Invalid IPv6 URL'')
            else if lb then (case chk netloc of Some e \<Rightarrow> Inl e | None \<Rightarrow> Inr (scheme, netloc))
            else Inr (scheme, netloc))
      else Inr (scheme, []))"

text \<open>
  \<^verbatim>\<open>urlparse\<close> on any value, giving what \<^verbatim>\<open>f"{parsed.scheme}"\<close> and
  \<^verbatim>\<open>f"{parsed.netloc}"\<close> write. A value that is not a string is decoded as bytes: a
  false one counts as empty and the result is a pair of empty bytes objects, a true one
  has no \<^verbatim>\<open>decode\<close> method.
\<close>

fun urlparse :: "netloc_check \<Rightarrow> pyval \<Rightarrow> exn + (string \<times> string)" where
  "urlparse chk (PStr s) = urlsplit chk s"
| "urlparse chk v =
     (if py_truthy v then Inl (no_attribute v ''decode'')
      else Inr (''b'' @ quoted [], ''b'' @ quoted []))"

section \<open>The URL registry (\<^verbatim>\<open>baseurl.py\<close>)\<close>

text \<open>
  The class attributes of \<^verbatim>\<open>URLConfig\<close>. The two derived attributes do not exist in the
  class body; the call at the end of the module creates them.
\<close>

record registry =
  HOST_LOOKUP_URL :: string
  BASE_URL :: pyval
  MARKET_DATA_URL :: "string option"
  INTERACTIVE_URL :: "string option"

definition class_body :: registry where
  "class_body =
     \<lparr> HOST_LOOKUP_URL = ''http://xtstradingnse.aryafingroup.in:3000/hostlookup'',
       BASE_URL = PStr ''http://xtstradingnse.aryafingroup.in:3000'',
       MARKET_DATA_URL = None,
       INTERACTIVE_URL = None \<rparr>"

text \<open>
  \<^verbatim>\<open>_update_derived_urls\<close>: both assignments come after the parse, so an exception
  of \<^verbatim>\<open>urlparse\<close> leaves the attributes as they were.
\<close>

definition update_derived_urls :: "netloc_check \<Rightarrow> registry \<Rightarrow> (exn + unit) \<times> registry" where
  "update_derived_urls chk cls =
     (case urlparse chk (BASE_URL cls) of
        Inl e \<Rightarrow> (Inl e, cls)
      | Inr (scheme, netloc) \<Rightarrow>
          (let base_domain = scheme @ ''://'' @ netloc
           in (Inr (),
               cls\<lparr> MARKET_DATA_URL := Some (base_domain @ ''/apimarketdata''),
                    INTERACTIVE_URL := Some (py_str (BASE_URL cls)) \<rparr>)))"

text \<open>\<^verbatim>\<open>update_base_url\<close>: the assignment to \<^verbatim>\<open>BASE_URL\<close> comes first.\<close>

definition update_base_url :: "netloc_check \<Rightarrow> pyval \<Rightarrow> registry \<Rightarrow> (exn + unit) \<times> registry" where
  "update_base_url chk new_base_url cls =
     update_derived_urls chk (cls\<lparr> BASE_URL := new_base_url \<rparr>)"

text \<open>The registry once the module is loaded.\<close>

definition module_init :: "netloc_check \<Rightarrow> (exn + unit) \<times> registry" where
  "module_init chk = update_derived_urls chk class_body"

section \<open>The world outside: environment variables and the HTTP client\<close>

text \<open>
  A request is what \<^verbatim>\<open>client.post(url, json=..., headers=...)\<close> is given. A response
  carries its status code and what \<^verbatim>\<open>response.json()\<close> does: return the decoded body
  or raise. The shared client of \<^verbatim>\<open>get_httpx_client()\<close> is the field \<open>post\<close> of the
  environment: given the requests already sent and the request at hand, it raises or
  responds. Obtaining the client, logging and printing are taken to return without
  effect; they belong to modules outside these two files.
\<close>

record request =
  url :: string
  json_payload :: pyval
  headers :: "(string \<times> string) list"

record response =
  status_code :: int
  json :: "exn + pyval"

datatype outcome = Raises exn | Responds response

record env =
  getenv :: "string \<Rightarrow> string option"
  post :: "request list \<Rightarrow> request \<Rightarrow> outcome"
  check_bracketed_netloc :: netloc_check

text \<open>The mutable state: the class attributes of \<^verbatim>\<open>URLConfig\<close> and the requests sent so far.\<close>

record world =
  URLConfig :: registry
  sent :: "request list"

text \<open>A statement or expression of the code: it runs in a world, raises or gives a
  value, and leaves a world behind.\<close>

type_synonym 'a comp = "world \<Rightarrow> (exn + 'a) \<times> world"

definition returns :: "'a \<Rightarrow> 'a comp" where
  "returns v w = (Inr v, w)"

definition lift :: "exn + 'a \<Rightarrow> 'a comp" where
  "lift r w = (r, w)"

definition bind :: "'a comp \<Rightarrow> ('a \<Rightarrow> 'b comp) \<Rightarrow> 'b comp" where
  "bind m f w = (case m w of (Inl e, w') \<Rightarrow> (Inl e, w') | (Inr v, w') \<Rightarrow> f v w')"

text \<open>\<^verbatim>\<open>try: m  except Exception as e: h e\<close>\<close>

definition try_except :: "'a comp \<Rightarrow> (exn \<Rightarrow> 'a comp) \<Rightarrow> 'a comp" where
  "try_except m h w = (case m w of (Inl e, w') \<Rightarrow> h e w' | (Inr v, w') \<Rightarrow> (Inr v, w'))"

definition on_registry :: "(registry \<Rightarrow> (exn + 'a) \<times> registry) \<Rightarrow> 'a comp" where
  "on_registry f w = (case f (URLConfig w) of (r, cls) \<Rightarrow> (r, w\<lparr> URLConfig := cls \<rparr>))"

definition client_post :: "env \<Rightarrow> request \<Rightarrow> response comp" where
  "client_post e rq w =
     (case post e (sent w) rq of
        Raises x \<Rightarrow> (Inl x, w\<lparr> sent := sent w @ [rq] \<rparr>)
      | Responds r \<Rightarrow> (Inr r, w\<lparr> sent := sent w @ [rq] \<rparr>))"

text \<open>\<^verbatim>\<open>os.getenv(name, default)\<close> and \<^verbatim>\<open>os.getenv(name)\<close>.\<close>

definition getenv_default :: "env \<Rightarrow> string \<Rightarrow> string \<Rightarrow> pyval" where
  "getenv_default e name dflt = (case getenv e name of None \<Rightarrow> PStr dflt | Some v \<Rightarrow> PStr v)"

definition getenv_or_none :: "env \<Rightarrow> string \<Rightarrow> pyval" where
  "getenv_or_none e name = (case getenv e name of None \<Rightarrow> PNone | Some v \<Rightarrow> PStr v)"

section \<open>The authentication sequencer (\<^verbatim>\<open>auth_api.py\<close>)\<close>

subsection \<open>\<^verbatim>\<open>hostlookup_login\<close>\<close>

definition hostlookup_request :: "env \<Rightarrow> registry \<Rightarrow> request" where
  "hostlookup_request e cls =
     \<lparr> url = HOST_LOOKUP_URL cls,
       json_payload = PDict
         [(''accesspassword'', getenv_default e ''HOSTLOOKUP_ACCESS_PASSWORD'' ''2021HostLookUpAccess''),
          (''version'', getenv_default e ''HOSTLOOKUP_VERSION'' ''interactive_1.0.1'')],
       headers = [] \<rparr>"

text \<open>
  Lines 11 to 36 of \<^verbatim>\<open>auth_api.py\<close>. First the body of the \<^verbatim>\<open>try\<close>: the request, the
  test of the status, \<^verbatim>\<open>response.json().get('result')\<close>, the test
  \<^verbatim>\<open>result.get("connectionString") and result.get("uniqueKey")\<close> (the second operand is
  evaluated only when the first is true) and the two returns. A status other than 200
  leaves the \<^verbatim>\<open>try\<close> without a \<^verbatim>\<open>return\<close> and reaches the last line of the function.
  Then the function itself, with its \<^verbatim>\<open>except Exception\<close>.
\<close>

definition hostlookup_login_try :: "env \<Rightarrow> (pyval \<times> pyval \<times> string option) comp" where
  "hostlookup_login_try e =
     (\<lambda>w. bind (client_post e (hostlookup_request e (URLConfig w))) (\<lambda>response.
       if status_code response = 200 then
         bind (lift (json response)) (\<lambda>body.
         bind (lift (dict_get body ''result'' PNone)) (\<lambda>result.
         bind (lift (dict_get result ''connectionString'' PNone)) (\<lambda>c.
         bind (lift (if py_truthy c then dict_get result ''uniqueKey'' PNone else Inr c)) (\<lambda>both.
           if py_truthy both then
             bind (lift (dict_get result ''connectionString'' PNone)) (\<lambda>connectionString.
             bind (lift (dict_get result ''uniqueKey'' PNone)) (\<lambda>uniqueKey.
               returns (connectionString, uniqueKey, None)))
           else
             returns (PNone, PNone, Some ''Error during hostlookup: Incomplete response data.'')))))
       else
         returns (PNone, PNone,
                  Some ''Error during hostlookup: Unknown error or unexpected response.'')) w)"

definition hostlookup_login :: "env \<Rightarrow> (pyval \<times> pyval \<times> string option) comp" where
  "hostlookup_login e =
     try_except (hostlookup_login_try e)
       (\<lambda>x. returns (PNone, PNone, Some (''Error during hostlookup: '' @ str_exn x)))"

subsection \<open>\<^verbatim>\<open>get_feed_token\<close>\<close>

definition json_headers :: "(string \<times> string) list" where
  "json_headers = [(''Content-Type'', ''application/json'')]"

definition feed_request :: "env \<Rightarrow> string \<Rightarrow> request" where
  "feed_request e market_data_url =
     \<lparr> url = market_data_url @ ''/auth/login'',
       json_payload = PDict
         [(''secretKey'', getenv_or_none e ''BROKER_API_SECRET_MARKET''),
          (''appKey'', getenv_or_none e ''BROKER_API_KEY_MARKET''),
          (''source'', PStr ''WebAPI'')],
       headers = json_headers \<rparr>"

text \<open>
  Lines 99 to 138. Reading \<^verbatim>\<open>URLConfig.MARKET_DATA_URL\<close> comes first: the attribute
  exists once the module is loaded. A response with status 200 and \<^verbatim>\<open>type\<close> equal to
  \<^verbatim>\<open>"success"\<close> is read with \<^verbatim>\<open>feed_result["result"].get(...)\<close>, twice.
\<close>

definition read_market_data_url :: "string comp" where
  "read_market_data_url w =
     (case MARKET_DATA_URL (URLConfig w) of
        None \<Rightarrow> (Inl (AttributeError (''type object '' @ quoted ''URLConfig'' @
                       '' has no attribute '' @ quoted ''MARKET_DATA_URL'')), w)
      | Some m \<Rightarrow> (Inr m, w))"

definition get_feed_token_try :: "env \<Rightarrow> (pyval \<times> pyval \<times> string option) comp" where
  "get_feed_token_try e =
     bind read_market_data_url (\<lambda>market_data_url.
     bind (client_post e (feed_request e market_data_url)) (\<lambda>feed_response.
       if status_code feed_response = 200 then
         bind (lift (json feed_response)) (\<lambda>feed_result.
         bind (lift (dict_get feed_result ''type'' PNone)) (\<lambda>ty.
           if ty = PStr ''success'' then
             bind (lift (subscript feed_result ''result'')) (\<lambda>r1.
             bind (lift (dict_get r1 ''token'' PNone)) (\<lambda>feed_token.
             bind (lift (subscript feed_result ''result'')) (\<lambda>r2.
             bind (lift (dict_get r2 ''userID'' PNone)) (\<lambda>user_id.
               returns (feed_token, user_id, None)))))
           else
             returns (PNone, PNone, Some ''Feed token request failed. Please check the response.'')))
       else
         bind (lift (json feed_response)) (\<lambda>feed_error_detail.
         bind (lift (dict_get feed_error_detail ''description''
                       (PStr ''Feed token request failed. Please try again.''))) (\<lambda>feed_error_message.
           returns (PNone, PNone, Some (''API Error (Feed): '' @ py_str feed_error_message))))))"

definition get_feed_token :: "env \<Rightarrow> (pyval \<times> pyval \<times> string option) comp" where
  "get_feed_token e =
     try_except (get_feed_token_try e)
       (\<lambda>x. returns (PNone, PNone, Some (''An exception occurred: '' @ str_exn x)))"

subsection \<open>\<^verbatim>\<open>authenticate_broker\<close>\<close>

definition session_request :: "env \<Rightarrow> pyval \<Rightarrow> pyval \<Rightarrow> request" where
  "session_request e connectionString unique_key =
     \<lparr> url = py_str connectionString @ ''/user/session'',
       json_payload = PDict
         [(''appKey'', getenv_or_none e ''BROKER_API_KEY''),
          (''secretKey'', getenv_or_none e ''BROKER_API_SECRET''),
          (''source'', PStr ''WebAPI''),
          (''uniqueKey'', unique_key)],
       headers = json_headers \<rparr>"

text \<open>
  Lines 38 to 96. The parameter \<^verbatim>\<open>request_token\<close> is not read. The registry is updated
  (line 73) inside the branch of status 200, after \<^verbatim>\<open>response.json()\<close> and before the
  \<^verbatim>\<open>type\<close> field is looked at. What follows the call of \<^verbatim>\<open>get_feed_token\<close> (lines 80 to
  83) is \<open>after_feed_token\<close>: \<^verbatim>\<open>if feed_error:\<close> is the truth value of a string or
  \<^verbatim>\<open>None\<close>.
\<close>

definition after_feed_token ::
  "pyval \<Rightarrow> pyval \<times> pyval \<times> string option \<Rightarrow> pyval \<times> pyval \<times> pyval \<times> string option" where
  "after_feed_token token r =
     (case r of (feed_token, user_id, feed_error) \<Rightarrow>
        (case feed_error of
           None \<Rightarrow> (token, feed_token, user_id, None)
         | Some msg \<Rightarrow>
             if msg \<noteq> [] then (token, PNone, PNone, Some (''Feed token error: '' @ msg))
             else (token, feed_token, user_id, None)))"

definition authenticate_broker_try ::
  "env \<Rightarrow> pyval \<Rightarrow> (pyval \<times> pyval \<times> pyval \<times> string option) comp" where
  "authenticate_broker_try e request_token =
     bind (hostlookup_login e) (\<lambda>(connectionString, unique_key, hostlookup_error).
       if hostlookup_error \<noteq> None then
         returns (PNone, PNone, PNone, hostlookup_error)
       else
         bind (client_post e (session_request e connectionString unique_key)) (\<lambda>response.
           if status_code response = 200 then
             bind (lift (json response)) (\<lambda>result.
             bind (on_registry (update_base_url (check_bracketed_netloc e) connectionString)) (\<lambda>_.
             bind (lift (dict_get result ''type'' PNone)) (\<lambda>ty.
               if ty = PStr ''success'' then
                 bind (lift (subscript result ''result'')) (\<lambda>r.
                 bind (lift (subscript r ''token'')) (\<lambda>token.
                 bind (get_feed_token e) (\<lambda>feed.
                   returns (after_feed_token token feed))))
               else
                 returns (PNone, PNone, PNone,
                   Some ''Authentication succeeded but no access token was returned. Please check the response.''))))
           else
             bind (lift (json response)) (\<lambda>error_detail.
             bind (lift (dict_get error_detail ''message''
                           (PStr ''Authentication failed. Please try again.''))) (\<lambda>error_message.
               returns (PNone, PNone, PNone, Some (''API error: '' @ py_str error_message))))))"

definition authenticate_broker ::
  "env \<Rightarrow> pyval \<Rightarrow> (pyval \<times> pyval \<times> pyval \<times> string option) comp" where
  "authenticate_broker e request_token =
     try_except (authenticate_broker_try e request_token)
       (\<lambda>x. returns (PNone, PNone, PNone, Some (''Error during authentication: '' @ str_exn x)))"

section \<open>Concrete runs\<close>

text \<open>
  Inputs for the closed examples below: a library without validation of bracketed
  hosts, the world right after the module is loaded, and an HTTP client that answers
  the requests of a run from a script, one outcome per request in order, and refuses
  the connection once the script is used up.
\<close>

definition no_validation :: netloc_check where
  "no_validation netloc = None"

definition loaded :: world where
  "loaded = \<lparr> URLConfig = snd (module_init no_validation), sent = [] \<rparr>"

definition scripted :: "outcome list \<Rightarrow> request list \<Rightarrow> request \<Rightarrow> outcome" where
  "scripted outs history rq =
     (if length history < length outs then outs ! length history
      else Raises (OtherError ''connection refused''))"

definition script_env :: "outcome list \<Rightarrow> env" where
  "script_env outs =
     \<lparr> getenv = (\<lambda>name. None), post = scripted outs, check_bracketed_netloc = no_validation \<rparr>"

definition lookup_ok :: response where
  "lookup_ok =
     \<lparr> status_code = 200,
       json = Inr (PDict
         [(''type'', PBool True),
          (''description'', PStr ''Hostlookup successful''),
          (''result'', PDict
             [(''uniqueKey'', PStr ''K0j+aTs2'')
             ,(''connectionString'', PStr ''http://host:3000/2hostlookup'')
             ,(''timeStamp'', PInt 0)
             ,(''remarks'', PStr [])])]) \<rparr>"

definition session_ok :: response where
  "session_ok =
     \<lparr> status_code = 200,
       json = Inr (PDict [(''type'', PStr ''success''), (''result'', PDict [(''token'', PStr ''tok1'')])]) \<rparr>"

definition session_refused :: response where
  "session_refused =
     \<lparr> status_code = 400, json = Inr (PDict [(''message'', PStr ''Invalid credentials'')]) \<rparr>"

definition feed_ok :: response where
  "feed_ok =
     \<lparr> status_code = 200,
       json = Inr (PDict
         [(''type'', PStr ''success''),
          (''result'', PDict [(''token'', PStr ''feed1''), (''userID'', PStr ''U7'')])]) \<rparr>"

definition feed_no_token :: response where
  "feed_no_token =
     \<lparr> status_code = 200,
       json = Inr (PDict [(''type'', PStr ''success''), (''result'', PDict [(''userID'', PStr ''U7'')])]) \<rparr>"

definition feed_down :: response where
  "feed_down =
     \<lparr> status_code = 503, json = Inr (PDict [(''description'', PStr ''down'')]) \<rparr>"

definition timed_out :: outcome where
  "timed_out = Raises (OtherError ''timed out'')"

definition lookup_no_key :: response where
  "lookup_no_key =
     \<lparr> status_code = 200,
       json = Inr (PDict
         [(''type'', PBool True),
          (''result'', PDict [(''connectionString'', PStr ''http://host:3000/2hostlookup'')])]) \<rparr>"

definition lookup_bracket_host :: response where
  "lookup_bracket_host =
     \<lparr> status_code = 200,
       json = Inr (PDict
         [(''type'', PBool True),
          (''result'', PDict
             [(''uniqueKey'', PStr ''K0j+aTs2''), (''connectionString'', PStr ''http://[host'')])]) \<rparr>"

definition lookup_no_result :: response where
  "lookup_no_result =
     \<lparr> status_code = 200,
       json = Inr (PDict [(''type'', PBool False), (''description'', PStr ''Invalid access password'')]) \<rparr>"

definition lookup_not_object :: response where
  "lookup_not_object = \<lparr> status_code = 200, json = Inr (PList []) \<rparr>"

definition happy_env :: env where
  "happy_env = script_env [Responds lookup_ok, Responds session_ok, Responds feed_ok]"

definition feed_down_env :: env where
  "feed_down_env = script_env [Responds lookup_ok, Responds session_ok, Responds feed_down]"


definition refused_env :: env where
  "refused_env = script_env [Responds lookup_ok, Responds session_refused]"

definition session_garbled :: response where
  "session_garbled =
     \<lparr> status_code = 200, json = Inl (OtherError ''Expecting value: line 1 column 1 (char 0)'') \<rparr>"

definition garbled_env :: env where
  "garbled_env = script_env [Responds lookup_ok, Responds session_garbled]"

definition session_timeout_env :: env where
  "session_timeout_env = script_env [Responds lookup_ok, timed_out]"

definition bracket_host_env :: env where
  "bracket_host_env = script_env [Responds lookup_bracket_host, Responds session_ok, Responds feed_ok]"

section \<open>The registry's invariant and the shape of a URL\<close>

text \<open>
  The invariant the registry is meant to keep: the derived URLs are the ones computed
  from the current \<^verbatim>\<open>BASE_URL\<close>.
\<close>

definition derived_urls_consistent :: "netloc_check \<Rightarrow> registry \<Rightarrow> bool" where
  "derived_urls_consistent chk cls =
     (case urlparse chk (BASE_URL cls) of
        Inl x \<Rightarrow> False
      | Inr (scheme, netloc) \<Rightarrow>
          MARKET_DATA_URL cls = Some (scheme @ ''://'' @ netloc @ ''/apimarketdata'')
          \<and> INTERACTIVE_URL cls = Some (py_str (BASE_URL cls)))"

text \<open>
  The field \<^verbatim>\<open>result.key\<close> of a lookup response's JSON, when there is one: the body
  decodes to an object, its \<^verbatim>\<open>result\<close> is an object, and that object has the key. In
  every other case (no body, a body that is not an object, no \<^verbatim>\<open>result\<close>, a \<^verbatim>\<open>result\<close>
  that is null or not an object, no such key) the field is missing.
\<close>

definition lookup_field :: "response \<Rightarrow> string \<Rightarrow> pyval option" where
  "lookup_field r key =
     (case json r of
        Inr (PDict obj) \<Rightarrow>
          (case map_of obj ''result'' of Some (PDict kvs) \<Rightarrow> map_of kvs key | _ \<Rightarrow> None)
      | _ \<Rightarrow> None)"

text \<open>
  The characters of a plain \<^verbatim>\<open>host:port\<close>: none of the delimiters that end the
  network location, no square bracket, and none of the bytes \<^verbatim>\<open>urlsplit\<close> removes.
\<close>

definition is_unsafe_byte :: "char \<Rightarrow> bool" where
  "is_unsafe_byte c = ((of_char c :: nat) = 9 \<or> (of_char c :: nat) = 13 \<or> (of_char c :: nat) = 10)"

definition is_hostport_char :: "char \<Rightarrow> bool" where
  "is_hostport_char c =
     (\<not> is_netloc_delim c \<and> c \<noteq> CHR ''['' \<and> c \<noteq> CHR '']'' \<and> \<not> is_unsafe_byte c)"

section \<open>Facts about \<^verbatim>\<open>urlsplit\<close>\<close>

lemmas urlsplit_defs = urlsplit_def split_scheme_def remove_unsafe_bytes_def lstrip_c0_or_space_def
  is_ascii_alpha_def is_scheme_char_def ascii_lower_def splitnetloc_def is_netloc_delim_def

lemma scheme_char_facts:
  assumes "is_scheme_char c"
  shows "c \<noteq> CHR '':''" "\<not> is_unsafe_byte c"
  using assms
  by (auto simp add: is_scheme_char_def is_ascii_alpha_def is_unsafe_byte_def Let_def)

lemma alpha_not_stripped: "is_ascii_alpha c \<Longrightarrow> \<not> (of_char c :: nat) \<le> 32"
  by (auto simp add: is_ascii_alpha_def Let_def)

lemma lstrip_keeps:
  assumes "s \<noteq> []" "is_ascii_alpha (hd s)"
  shows "lstrip_c0_or_space (s @ t) = s @ t"
  using assms by (cases s) (auto simp add: lstrip_c0_or_space_def dest: alpha_not_stripped)

lemma remove_unsafe_bytes_append:
  "remove_unsafe_bytes (s @ t) = remove_unsafe_bytes s @ remove_unsafe_bytes t"
  by (simp add: remove_unsafe_bytes_def)

lemma remove_unsafe_bytes_id:
  "list_all (\<lambda>c. \<not> is_unsafe_byte c) s \<Longrightarrow> remove_unsafe_bytes s = s"
  by (induction s) (auto simp add: remove_unsafe_bytes_def is_unsafe_byte_def)

lemma remove_unsafe_bytes_path:
  assumes "path = [] \<or> is_netloc_delim (hd path)"
  shows "remove_unsafe_bytes path = [] \<or> is_netloc_delim (hd (remove_unsafe_bytes path))"
  using assms by (cases path) (auto simp add: remove_unsafe_bytes_def is_netloc_delim_def)

lemma takeWhile_stop:
  "list_all P xs \<Longrightarrow> \<not> P x \<Longrightarrow> takeWhile P (xs @ x # l) = xs"
  by (induction xs) auto

lemma split_scheme_colon:
  assumes "scheme \<noteq> []" "is_ascii_alpha (hd scheme)" "list_all is_scheme_char scheme"
  shows "split_scheme (scheme @ CHR '':'' # rest) = (map ascii_lower scheme, rest)"
proof -
  have "takeWhile (\<lambda>c. c \<noteq> CHR '':'') (scheme @ CHR '':'' # rest) = scheme"
  proof (rule takeWhile_stop)
    show "list_all (\<lambda>c. c \<noteq> CHR '':'') scheme"
      using assms(3) by (auto simp add: list_all_iff dest: scheme_char_facts(1))
  qed simp
  with assms show ?thesis
    by (simp add: split_scheme_def)
qed

lemma splitnetloc_hostport:
  assumes "list_all is_hostport_char hostport" "path = [] \<or> is_netloc_delim (hd path)"
  shows "splitnetloc (''//'' @ hostport @ path) = hostport"
proof (cases path)
  case Nil
  with assms(1) show ?thesis
    by (auto simp add: splitnetloc_def list_all_iff is_hostport_char_def)
next
  case (Cons d p)
  with assms(2) have d: "is_netloc_delim d" by simp
  have "takeWhile (\<lambda>c. \<not> is_netloc_delim c) (hostport @ d # p) = hostport"
  proof (rule takeWhile_stop)
    show "list_all (\<lambda>c. \<not> is_netloc_delim c) hostport"
      using assms(1) by (auto simp add: list_all_iff is_hostport_char_def)
    show "\<not> \<not> is_netloc_delim d"
      using d by simp
  qed
  with Cons show ?thesis by (simp add: splitnetloc_def)
qed

text \<open>A URL of the shape \<^verbatim>\<open>scheme://host:port\<close>, alone or followed by a path, a query or a
  fragment, parses to its scheme in lower case and its \<^verbatim>\<open>host:port\<close>.\<close>

lemma urlsplit_origin:
  assumes sch: "scheme \<noteq> []" "is_ascii_alpha (hd scheme)" "list_all is_scheme_char scheme"
      and hp: "list_all is_hostport_char hostport"
      and path: "path = [] \<or> is_netloc_delim (hd path)"
  shows "urlsplit chk (scheme @ ''://'' @ hostport @ path) = Inr (map ascii_lower scheme, hostport)"
proof -
  let ?path = "remove_unsafe_bytes path"
  have 1: "lstrip_c0_or_space (scheme @ ''://'' @ hostport @ path) = scheme @ ''://'' @ hostport @ path"
    using sch(1,2) by (rule lstrip_keeps)
  have s: "remove_unsafe_bytes scheme = scheme"
    using sch(3) by (intro remove_unsafe_bytes_id) (auto simp add: list_all_iff dest: scheme_char_facts(2))
  have h: "remove_unsafe_bytes hostport = hostport"
    using hp by (intro remove_unsafe_bytes_id) (auto simp add: list_all_iff is_hostport_char_def)
  have c: "remove_unsafe_bytes ''://'' = ''://''"
    by (simp add: remove_unsafe_bytes_def)
  have "remove_unsafe_bytes (scheme @ ''://'' @ hostport @ path) =
          remove_unsafe_bytes scheme @ remove_unsafe_bytes ''://'' @ remove_unsafe_bytes hostport @ ?path"
    by (simp only: remove_unsafe_bytes_append)
  then have 2: "remove_unsafe_bytes (scheme @ ''://'' @ hostport @ path) =
                  scheme @ CHR '':'' # (''//'' @ hostport @ ?path)"
    by (simp only: s h c) simp
  have 3: "split_scheme (scheme @ CHR '':'' # (''//'' @ hostport @ ?path)) =
             (map ascii_lower scheme, ''//'' @ hostport @ ?path)"
    using sch by (rule split_scheme_colon)
  have 4: "splitnetloc (''//'' @ hostport @ ?path) = hostport"
    using hp remove_unsafe_bytes_path [OF path] by (rule splitnetloc_hostport)
  have 5: "CHR ''['' \<notin> set hostport" "CHR '']'' \<notin> set hostport"
    using hp by (auto simp add: list_all_iff is_hostport_char_def)
  show ?thesis
    unfolding urlsplit_def 1 2 3 using 4 5 by simp
qed

text \<open>Whatever parses, the network location holds no path, query or fragment.\<close>

lemma urlsplit_netloc_no_path:
  assumes "urlsplit chk s = Inr (scheme, netloc)"
  shows "\<not> list_ex is_netloc_delim netloc"
proof -
  have "\<And>u. \<not> list_ex is_netloc_delim (splitnetloc u)"
    by (auto simp add: splitnetloc_def list_ex_iff dest: set_takeWhileD)
  with assms show ?thesis
    by (auto simp add: urlsplit_def Let_def split: prod.splits if_splits option.splits)
qed

lemma example_parse:
  "urlsplit chk ''http://host:3000/2hostlookup'' = Inr (''http'', ''host:3000'')"
  by (simp add: urlsplit_defs)

section \<open>Facts about the registry\<close>

text \<open>An update that returns has created the market-data URL and leaves the registry
  consistent; the new base URL is stored whether the update returns or raises. Loading
  the module gives a consistent registry.\<close>

lemma update_base_url_returns:
  "update_base_url chk v cls = (Inr (), cls') \<Longrightarrow> MARKET_DATA_URL cls' \<noteq> None \<and> BASE_URL cls' = v"
  by (auto simp add: update_base_url_def update_derived_urls_def split: sum.splits prod.splits)

lemma update_base_url_base:
  "BASE_URL (snd (update_base_url chk v cls)) = v"
  by (auto simp add: update_base_url_def update_derived_urls_def split: sum.splits prod.splits)

lemma update_base_url_consistent:
  "update_base_url chk v cls = (Inr (), cls') \<Longrightarrow> derived_urls_consistent chk cls'"
  by (auto simp add: update_base_url_def update_derived_urls_def derived_urls_consistent_def
      split: sum.splits prod.splits)

lemma module_init_consistent:
  "fst (module_init chk) = Inr () \<and> derived_urls_consistent chk (snd (module_init chk))"
  by (simp add: update_derived_urls_def module_init_def class_body_def urlsplit_defs
      derived_urls_consistent_def)

section \<open>Facts about the three entry points\<close>

lemmas comp_defs = bind_def returns_def lift_def try_except_def client_post_def on_registry_def

lemmas fixture_defs = script_env_def scripted_def loaded_def module_init_def

text \<open>The host lookup sends exactly one request, always returns a triple and leaves the
  registry alone.\<close>

lemma hostlookup_login_result:
  "\<exists>r. hostlookup_login e w = (Inr r, w\<lparr>sent := sent w @ [hostlookup_request e (URLConfig w)]\<rparr>)"
  by (auto simp add: hostlookup_login_def hostlookup_login_try_def comp_defs
      split: outcome.splits sum.splits)


lemma hostlookup_login_registry:
  "hostlookup_login e w = (r, w1) \<Longrightarrow>
     URLConfig w1 = URLConfig w \<and> sent w1 = sent w @ [hostlookup_request e (URLConfig w)]"
  using hostlookup_login_result [of e w] by auto

text \<open>The feed login sends one request when the market-data URL exists, none otherwise;
  it leaves the registry alone, and an error comes with two \<^verbatim>\<open>None\<close>s and is not empty.\<close>

lemma get_feed_token_result:
  assumes "MARKET_DATA_URL (URLConfig w) = Some m"
  shows "\<exists>ft uid err. get_feed_token e w =
           (Inr (ft, uid, err), w\<lparr>sent := sent w @ [feed_request e m]\<rparr>)
         \<and> (err = None \<or> (ft = PNone \<and> uid = PNone \<and> err \<noteq> Some []))"
  using assms
  by (auto simp add: get_feed_token_def get_feed_token_try_def read_market_data_url_def comp_defs
      split: outcome.splits sum.splits)

lemma get_feed_token_unloaded:
  assumes "MARKET_DATA_URL (URLConfig w) = None"
  shows "\<exists>msg. get_feed_token e w = (Inr (PNone, PNone, Some msg), w) \<and> msg \<noteq> []"
  using assms
  by (simp add: get_feed_token_def get_feed_token_try_def read_market_data_url_def comp_defs)

lemma get_feed_token_cases:
  obtains (unloaded) msg where "MARKET_DATA_URL (URLConfig w) = None"
      "get_feed_token e w = (Inr (PNone, PNone, Some msg), w)" "msg \<noteq> []"
  | (posted) m ft uid err where "MARKET_DATA_URL (URLConfig w) = Some m"
      "get_feed_token e w = (Inr (ft, uid, err), w\<lparr>sent := sent w @ [feed_request e m]\<rparr>)"
      "err = None \<or> (ft = PNone \<and> uid = PNone \<and> err \<noteq> Some [])"
proof (cases "MARKET_DATA_URL (URLConfig w)")
  case None
  then show ?thesis using get_feed_token_unloaded [of w e] unloaded by blast
next
  case (Some m)
  then show ?thesis using get_feed_token_result [of w m e] posted by blast
qed

lemma get_feed_token_registry:
  "URLConfig (snd (get_feed_token e w)) = URLConfig w"
  by (cases rule: get_feed_token_cases [of w e]) auto

lemma get_feed_token_shape:
  "\<exists>ft uid err w'. get_feed_token e w = (Inr (ft, uid, err), w')
     \<and> (err = None \<or> (ft = PNone \<and> uid = PNone \<and> err \<noteq> Some []))"
  by (cases rule: get_feed_token_cases [of w e]) auto

text \<open>A lookup answered with status 200: both fields present and true, or a field missing.\<close>

lemma hostlookup_login_complete:
  assumes "post e (sent w) (hostlookup_request e (URLConfig w)) = Responds r"
      and "status_code r = 200"
      and "lookup_field r ''connectionString'' = Some cs"
      and "lookup_field r ''uniqueKey'' = Some uk"
      and "py_truthy cs" "py_truthy uk"
  shows "hostlookup_login e w =
            (Inr (cs, uk, None), w\<lparr>sent := sent w @ [hostlookup_request e (URLConfig w)]\<rparr>)"
  using assms
  by (auto simp add: hostlookup_login_def hostlookup_login_try_def comp_defs lookup_field_def
      split: sum.splits pyval.splits option.splits)

lemma hostlookup_login_missing:
  assumes "post e (sent w) (hostlookup_request e (URLConfig w)) = Responds r"
      and "status_code r = 200"
      and "lookup_field r ''uniqueKey'' = None \<or> lookup_field r ''connectionString'' = None"
  shows "\<exists>msg. hostlookup_login e w =
            (Inr (PNone, PNone, Some msg), w\<lparr>sent := sent w @ [hostlookup_request e (URLConfig w)]\<rparr>)"
proof (cases "json r")
  case (Inl x)
  with assms show ?thesis
    by (simp add: hostlookup_login_def hostlookup_login_try_def comp_defs)
next
  case (Inr body)
  show ?thesis
  proof (cases "dict_get body ''result'' PNone")
    case (Inl x)
    with assms Inr show ?thesis
      by (simp add: hostlookup_login_def hostlookup_login_try_def comp_defs)
  next
    case res: (Inr result)
    show ?thesis
    proof (cases "\<exists>kvs. result = PDict kvs")
      case False
      then have "\<And>k d. \<exists>x. dict_get result k d = Inl x"
        by (cases result) auto
      then obtain x where "dict_get result ''connectionString'' PNone = Inl x" by blast
      with assms Inr res show ?thesis
        by (simp add: hostlookup_login_def hostlookup_login_try_def comp_defs)
    next
      case True
      then obtain kvs where kvs: "result = PDict kvs" by blast
      from res kvs Inr have "lookup_field r ''uniqueKey'' = map_of kvs ''uniqueKey''"
        "lookup_field r ''connectionString'' = map_of kvs ''connectionString''"
        by (cases body; auto simp add: lookup_field_def split: option.splits)+
      with assms Inr res kvs show ?thesis
        by (auto simp add: hostlookup_login_def hostlookup_login_try_def comp_defs split: option.splits)
    qed
  qed
qed

lemma hostlookup_login_incomplete:
  assumes "post e (sent w) (hostlookup_request e (URLConfig w)) = Responds r"
      and "status_code r = 200"
      and "json r = Inr (PDict obj)"
      and "map_of obj ''result'' = Some (PDict kvs)"
      and "map_of kvs ''uniqueKey'' = None \<or> map_of kvs ''connectionString'' = None"
  shows "hostlookup_login e w =
            (Inr (PNone, PNone, Some ''Error during hostlookup: Incomplete response data.''),
             w\<lparr>sent := sent w @ [hostlookup_request e (URLConfig w)]\<rparr>)"
  using assms
  by (auto simp add: hostlookup_login_def hostlookup_login_try_def comp_defs split: option.splits)







text \<open>Two runs, evaluated: the market-data URL right after loading, and a run in which
  all three requests succeed.\<close>

lemma loaded_market:
  "MARKET_DATA_URL (URLConfig loaded) = Some ''http://xtstradingnse.aryafingroup.in:3000/apimarketdata''"
  by code_simp

lemma full_run:
  "authenticate_broker happy_env PNone loaded =
    (Inr (PStr ''tok1'', PStr ''feed1'', PStr ''U7'', None),
     \<lparr>URLConfig =
        \<lparr>HOST_LOOKUP_URL = ''http://xtstradingnse.aryafingroup.in:3000/hostlookup'',
         BASE_URL = PStr ''http://host:3000/2hostlookup'',
         MARKET_DATA_URL = Some ''http://host:3000/apimarketdata'',
         INTERACTIVE_URL = Some ''http://host:3000/2hostlookup''\<rparr>,
      sent =
        [hostlookup_request happy_env (URLConfig loaded),
         session_request happy_env (PStr ''http://host:3000/2hostlookup'') (PStr ''K0j+aTs2''),
         feed_request happy_env ''http://host:3000/apimarketdata'']\<rparr>)"
  by code_simp

section \<open>The claims\<close>

text \<open>
  C1, as amended. When Stage 1 succeeds, Stage 2 answers HTTP 200 with a JSON object
  whose \<^verbatim>\<open>type\<close> is \<^verbatim>\<open>"success"\<close> and whose \<^verbatim>\<open>result.token\<close> is present, the
  registry update returns, and Stage 3 fails with the error text \<open>feed_error\<close>, then
  \<^verbatim>\<open>authenticate_broker\<close> returns \<^verbatim>\<open>(token, None, None, "Feed token error: " + feed_error)\<close>:
  the session token obtained in Stage 2 is the first component of the tuple.
\<close>

theorem feed_failure_returns_token:
  assumes s1: "hostlookup_login e w = (Inr (cs, uk, None), w1)"
      and s2: "post e (sent w1) (session_request e cs uk) = Responds r"
              "status_code r = 200" "json r = Inr (PDict obj)"
              "map_of obj ''type'' = Some (PStr ''success'')"
              "map_of obj ''result'' = Some (PDict kvs)"
              "map_of kvs ''token'' = Some token"
      and upd: "update_base_url (check_bracketed_netloc e) cs (URLConfig w1) = (Inr (), cls)"
      and s3: "get_feed_token e (w1\<lparr>sent := sent w1 @ [session_request e cs uk], URLConfig := cls\<rparr>)
                 = (Inr (ft, uid, Some feed_error), w3)"
  shows "authenticate_broker e request_token w =
           (Inr (token, PNone, PNone, Some (''Feed token error: '' @ feed_error)), w3)"
proof -
  have "feed_error \<noteq> []"
    using s3 get_feed_token_shape [of e "w1\<lparr>sent := sent w1 @ [session_request e cs uk], URLConfig := cls\<rparr>"]
    by auto
  with assms show ?thesis
    by (simp add: authenticate_broker_def authenticate_broker_try_def comp_defs after_feed_token_def)
qed

theorem feed_failure_returns_token_witness:
  "authenticate_broker feed_down_env (PStr ''rt'') loaded =
     (Inr (PStr ''tok1'', PNone, PNone, Some (''Feed token error: '' @ ''API Error (Feed): down'')),
      snd (get_feed_token feed_down_env
        (loaded\<lparr>sent := [hostlookup_request feed_down_env (URLConfig loaded),
                           session_request feed_down_env (PStr ''http://host:3000/2hostlookup'') (PStr ''K0j+aTs2'')],
                URLConfig := snd (update_base_url no_validation (PStr ''http://host:3000/2hostlookup'')
                                    (URLConfig loaded))\<rparr>)))"
proof -
  let ?cs = "PStr ''http://host:3000/2hostlookup''" and ?uk = "PStr ''K0j+aTs2''"
  let ?w1 = "loaded\<lparr>sent := [hostlookup_request feed_down_env (URLConfig loaded)]\<rparr>"
  let ?cls = "snd (update_base_url no_validation ?cs (URLConfig loaded))"
  let ?w2 = "?w1\<lparr>sent := sent ?w1 @ [session_request feed_down_env ?cs ?uk], URLConfig := ?cls\<rparr>"
  have s1: "hostlookup_login feed_down_env loaded = (Inr (?cs, ?uk, None), ?w1)"
    by code_simp
  have s2: "post feed_down_env (sent ?w1) (session_request feed_down_env ?cs ?uk) = Responds session_ok"
    by code_simp
  have r: "status_code session_ok = 200"
    "json session_ok = Inr (PDict [(''type'', PStr ''success''), (''result'', PDict [(''token'', PStr ''tok1'')])])"
    "map_of [(''type'', PStr ''success''), (''result'', PDict [(''token'', PStr ''tok1'')])] ''type''
       = Some (PStr ''success'')"
    "map_of [(''type'', PStr ''success''), (''result'', PDict [(''token'', PStr ''tok1'')])] ''result''
       = Some (PDict [(''token'', PStr ''tok1'')])"
    "map_of [(''token'', PStr ''tok1'')] ''token'' = Some (PStr ''tok1'')"
    by (simp_all add: session_ok_def)
  have upd: "update_base_url (check_bracketed_netloc feed_down_env) ?cs (URLConfig ?w1) = (Inr (), ?cls)"
    by code_simp
  have s3: "get_feed_token feed_down_env ?w2 =
              (Inr (PNone, PNone, Some ''API Error (Feed): down''), snd (get_feed_token feed_down_env ?w2))"
    by code_simp
  show ?thesis
    using feed_failure_returns_token [OF s1 s2 r upd s3, of "PStr ''rt''"] by simp
qed

text \<open>
  The claim as first stated has \<^verbatim>\<open>None\<close> in the first place. In the run below Stage 2
  succeeds with the token \<^verbatim>\<open>tok1\<close> and the feed login answers 503: the tuple returned
  holds the token.
\<close>

theorem feed_failure_counterexample:
  "fst (authenticate_broker feed_down_env (PStr ''rt'') loaded) =
     Inr (PStr ''tok1'', PNone, PNone, Some ''Feed token error: API Error (Feed): down'')
   \<and> fst (authenticate_broker feed_down_env (PStr ''rt'') loaded) \<noteq>
     Inr (PNone, PNone, PNone, Some ''Feed token error: API Error (Feed): down'')"
  by code_simp

text \<open>
  C2, as amended. In a run of \<^verbatim>\<open>authenticate_broker\<close> in which Stage 1 produces the
  connection string \<open>cs\<close>, the registry is updated only behind the test of the Stage 2
  status: when the Stage 2 request raises, answers with a status other than 200, or
  answers with a body that does not decode, the registry is left exactly as it was;
  when it answers 200 with a body that decodes, the registry's base URL is \<open>cs\<close> at the
  end of the run, whatever the \<^verbatim>\<open>type\<close> field says and whatever happens afterwards.
\<close>

theorem stage2_gates_registry_update:
  assumes s1: "hostlookup_login e w = (Inr (cs, uk, None), w1)"
  shows "(\<forall>x. post e (sent w1) (session_request e cs uk) = Raises x \<longrightarrow>
            URLConfig (snd (authenticate_broker e t w)) = URLConfig w)
       \<and> (\<forall>r. post e (sent w1) (session_request e cs uk) = Responds r \<and> status_code r \<noteq> 200 \<longrightarrow>
            URLConfig (snd (authenticate_broker e t w)) = URLConfig w)
       \<and> (\<forall>r x. post e (sent w1) (session_request e cs uk) = Responds r \<and> json r = Inl x \<longrightarrow>
            URLConfig (snd (authenticate_broker e t w)) = URLConfig w)
       \<and> (\<forall>r result. post e (sent w1) (session_request e cs uk) = Responds r
               \<and> status_code r = 200 \<and> json r = Inr result \<longrightarrow>
            BASE_URL (URLConfig (snd (authenticate_broker e t w))) = cs)"
proof -
  have reg: "URLConfig w1 = URLConfig w"
    using hostlookup_login_registry [OF s1] by simp
  let ?run = "authenticate_broker e t w"
  have raises: "URLConfig (snd ?run) = URLConfig w"
    if "post e (sent w1) (session_request e cs uk) = Raises x" for x
    using that s1 reg
    by (simp add: authenticate_broker_def authenticate_broker_try_def comp_defs)
  have refused: "URLConfig (snd ?run) = URLConfig w"
    if "post e (sent w1) (session_request e cs uk) = Responds r" "status_code r \<noteq> 200" for r
    using that s1 reg
    by (auto simp add: authenticate_broker_def authenticate_broker_try_def comp_defs
        split: sum.splits)
  have undecoded: "URLConfig (snd ?run) = URLConfig w"
    if "post e (sent w1) (session_request e cs uk) = Responds r" "json r = Inl x" for r x
    using that s1 reg
    by (auto simp add: authenticate_broker_def authenticate_broker_try_def comp_defs)
  have updated: "BASE_URL (URLConfig (snd ?run)) = cs"
    if "post e (sent w1) (session_request e cs uk) = Responds r" "status_code r = 200"
       "json r = Inr result" for r result
  proof -
    let ?cls = "snd (update_base_url (check_bracketed_netloc e) cs (URLConfig w))"
    let ?w2 = "w1\<lparr>sent := sent w1 @ [session_request e cs uk], URLConfig := ?cls\<rparr>"
    have base: "BASE_URL ?cls = cs"
      by (rule update_base_url_base)
    have feed: "URLConfig (snd (get_feed_token e ?w2)) = ?cls"
      using get_feed_token_registry [of e ?w2] by simp
    show ?thesis
      using that s1 reg base feed
      by (auto simp add: authenticate_broker_def authenticate_broker_try_def comp_defs
          split: sum.splits if_splits prod.splits)
  qed
  show ?thesis
    using raises refused undecoded updated by blast
qed

theorem stage2_gates_registry_update_witness:
  "URLConfig (snd (authenticate_broker session_timeout_env (PStr ''rt'') loaded)) = URLConfig loaded
   \<and> URLConfig (snd (authenticate_broker refused_env (PStr ''rt'') loaded)) = URLConfig loaded
   \<and> URLConfig (snd (authenticate_broker garbled_env (PStr ''rt'') loaded)) = URLConfig loaded
   \<and> BASE_URL (URLConfig (snd (authenticate_broker feed_down_env (PStr ''rt'') loaded))) =
       PStr ''http://host:3000/2hostlookup''"
proof -
  let ?cs = "PStr ''http://host:3000/2hostlookup''" and ?uk = "PStr ''K0j+aTs2''"
  let ?w1 = "\<lambda>e. loaded\<lparr>sent := [hostlookup_request e (URLConfig loaded)]\<rparr>"
  have a1: "hostlookup_login session_timeout_env loaded = (Inr (?cs, ?uk, None), ?w1 session_timeout_env)"
    by code_simp
  have a2: "post session_timeout_env (sent (?w1 session_timeout_env))
              (session_request session_timeout_env ?cs ?uk) = Raises (OtherError ''timed out'')"
    by code_simp
  have b1: "hostlookup_login refused_env loaded = (Inr (?cs, ?uk, None), ?w1 refused_env)"
    by code_simp
  have b2: "post refused_env (sent (?w1 refused_env)) (session_request refused_env ?cs ?uk)
              = Responds session_refused
            \<and> status_code session_refused \<noteq> 200"
    by code_simp
  have c1: "hostlookup_login garbled_env loaded = (Inr (?cs, ?uk, None), ?w1 garbled_env)"
    by code_simp
  have c2: "post garbled_env (sent (?w1 garbled_env)) (session_request garbled_env ?cs ?uk)
              = Responds session_garbled
            \<and> json session_garbled = Inl (OtherError ''Expecting value: line 1 column 1 (char 0)'')"
    by code_simp
  have d1: "hostlookup_login feed_down_env loaded = (Inr (?cs, ?uk, None), ?w1 feed_down_env)"
    by code_simp
  have d2: "post feed_down_env (sent (?w1 feed_down_env)) (session_request feed_down_env ?cs ?uk)
              = Responds session_ok
            \<and> status_code session_ok = 200
            \<and> json session_ok =
                Inr (PDict [(''type'', PStr ''success''), (''result'', PDict [(''token'', PStr ''tok1'')])])"
    by code_simp
  have "URLConfig (snd (authenticate_broker session_timeout_env (PStr ''rt'') loaded)) = URLConfig loaded"
    using stage2_gates_registry_update [OF a1, of "PStr ''rt''"] a2 by blast
  moreover
  have "URLConfig (snd (authenticate_broker refused_env (PStr ''rt'') loaded)) = URLConfig loaded"
    using stage2_gates_registry_update [OF b1, of "PStr ''rt''"] b2 by blast
  moreover
  have "URLConfig (snd (authenticate_broker garbled_env (PStr ''rt'') loaded)) = URLConfig loaded"
    using stage2_gates_registry_update [OF c1, of "PStr ''rt''"] c2 by blast
  moreover
  have "BASE_URL (URLConfig (snd (authenticate_broker feed_down_env (PStr ''rt'') loaded))) = ?cs"
    using stage2_gates_registry_update [OF d1, of "PStr ''rt''"] d2 by blast
  ultimately show ?thesis by simp
qed

text \<open>
  The claim as first stated has the base URL updated in every run that passes Stage 1.
  In the run below Stage 1 produces a connection string and the session login answers
  400: the base URL is still the one the module was loaded with.
\<close>

theorem stage2_failure_counterexample:
  "fst (hostlookup_login refused_env loaded) =
     Inr (PStr ''http://host:3000/2hostlookup'', PStr ''K0j+aTs2'', None)
   \<and> fst (authenticate_broker refused_env (PStr ''rt'') loaded) =
     Inr (PNone, PNone, PNone, Some ''API error: Invalid credentials'')
   \<and> BASE_URL (URLConfig (snd (authenticate_broker refused_env (PStr ''rt'') loaded))) =
     PStr ''http://xtstradingnse.aryafingroup.in:3000''
   \<and> BASE_URL (URLConfig (snd (authenticate_broker refused_env (PStr ''rt'') loaded))) \<noteq>
     PStr ''http://host:3000/2hostlookup''"
  by code_simp

text \<open>
  C3, as amended. For every string \<open>newBase\<close> that \<^verbatim>\<open>urlparse\<close> accepts,
  \<^verbatim>\<open>update_base_url(newBase)\<close> returns, sets \<^verbatim>\<open>BASE_URL\<close> to \<open>newBase\<close>, sets
  \<^verbatim>\<open>MARKET_DATA_URL\<close> to the origin of \<open>newBase\<close> followed by \<^verbatim>\<open>/apimarketdata\<close>, and sets
  \<^verbatim>\<open>INTERACTIVE_URL\<close> to \<open>newBase\<close>. The origin is the parsed scheme, \<^verbatim>\<open>://\<close> and the
  parsed network location, which never holds a path, query or fragment; for a
  \<open>newBase\<close> of the shape \<^verbatim>\<open>scheme://host:port\<close>, alone or followed by a path, it is the
  scheme in lower case and the \<^verbatim>\<open>host:port\<close>. In particular, after an update with
  \<^verbatim>\<open>http://host:3000/2hostlookup\<close> the market-data URL is
  \<^verbatim>\<open>http://host:3000/apimarketdata\<close> and the interactive URL is the full string.
\<close>

theorem update_base_url_sets_urls:
  "(\<forall>scheme netloc. urlparse chk (PStr newBase) = Inr (scheme, netloc) \<longrightarrow>
       update_base_url chk (PStr newBase) cls =
         (Inr (), cls\<lparr> BASE_URL := PStr newBase,
                       MARKET_DATA_URL := Some (scheme @ ''://'' @ netloc @ ''/apimarketdata''),
                       INTERACTIVE_URL := Some newBase \<rparr>)
       \<and> \<not> list_ex is_netloc_delim netloc)
   \<and> (\<forall>scheme hostport path.
         newBase = scheme @ ''://'' @ hostport @ path
         \<and> scheme \<noteq> [] \<and> is_ascii_alpha (hd scheme) \<and> list_all is_scheme_char scheme
         \<and> list_all is_hostport_char hostport
         \<and> (path = [] \<or> is_netloc_delim (hd path)) \<longrightarrow>
       urlparse chk (PStr newBase) = Inr (map ascii_lower scheme, hostport))
   \<and> update_base_url chk (PStr ''http://host:3000/2hostlookup'') cls =
         (Inr (), cls\<lparr> BASE_URL := PStr ''http://host:3000/2hostlookup'',
                       MARKET_DATA_URL := Some ''http://host:3000/apimarketdata'',
                       INTERACTIVE_URL := Some ''http://host:3000/2hostlookup'' \<rparr>)"
proof (intro conjI allI impI)
  fix scheme netloc
  assume p: "urlparse chk (PStr newBase) = Inr (scheme, netloc)"
  then show "update_base_url chk (PStr newBase) cls =
         (Inr (), cls\<lparr> BASE_URL := PStr newBase,
                       MARKET_DATA_URL := Some (scheme @ ''://'' @ netloc @ ''/apimarketdata''),
                       INTERACTIVE_URL := Some newBase \<rparr>)"
    by (simp add: update_base_url_def update_derived_urls_def)
  from p show "\<not> list_ex is_netloc_delim netloc"
    using urlsplit_netloc_no_path [of chk newBase scheme netloc] by simp
next
  fix scheme hostport path
  assume "newBase = scheme @ ''://'' @ hostport @ path
         \<and> scheme \<noteq> [] \<and> is_ascii_alpha (hd scheme) \<and> list_all is_scheme_char scheme
         \<and> list_all is_hostport_char hostport
         \<and> (path = [] \<or> is_netloc_delim (hd path))"
  then show "urlparse chk (PStr newBase) = Inr (map ascii_lower scheme, hostport)"
    using urlsplit_origin [of scheme hostport path chk] by simp
next
  show "update_base_url chk (PStr ''http://host:3000/2hostlookup'') cls =
         (Inr (), cls\<lparr> BASE_URL := PStr ''http://host:3000/2hostlookup'',
                       MARKET_DATA_URL := Some ''http://host:3000/apimarketdata'',
                       INTERACTIVE_URL := Some ''http://host:3000/2hostlookup'' \<rparr>)"
    by (simp add: update_base_url_def update_derived_urls_def example_parse)
qed

theorem update_base_url_sets_urls_witness:
  "update_base_url no_validation (PStr ''HTTPS://broker.example:8443/api?v=1'') (URLConfig loaded) =
     (Inr (), (URLConfig loaded)\<lparr> BASE_URL := PStr ''HTTPS://broker.example:8443/api?v=1'',
                MARKET_DATA_URL := Some ''https://broker.example:8443/apimarketdata'',
                INTERACTIVE_URL := Some ''HTTPS://broker.example:8443/api?v=1'' \<rparr>)"
proof -
  let ?u = "''HTTPS://broker.example:8443/api?v=1''"
  have shape: "?u = ''HTTPS'' @ ''://'' @ ''broker.example:8443'' @ ''/api?v=1''
         \<and> ''HTTPS'' \<noteq> [] \<and> is_ascii_alpha (hd ''HTTPS'') \<and> list_all is_scheme_char ''HTTPS''
         \<and> list_all is_hostport_char ''broker.example:8443''
         \<and> (''/api?v=1'' = [] \<or> is_netloc_delim (hd ''/api?v=1''))"
    by (simp add: is_ascii_alpha_def is_scheme_char_def is_hostport_char_def is_netloc_delim_def
        is_unsafe_byte_def)
  have lower: "map ascii_lower ''HTTPS'' = ''https''"
    by code_simp
  have parsed: "urlparse no_validation (PStr ?u) = Inr (''https'', ''broker.example:8443'')"
    using update_base_url_sets_urls [of no_validation ?u "URLConfig loaded"] shape lower by metis
  show ?thesis
    using update_base_url_sets_urls [of no_validation ?u "URLConfig loaded"] parsed by simp
qed

text \<open>
  The claim as first stated covers every string. \<^verbatim>\<open>urlparse\<close> raises \<^verbatim>\<open>ValueError\<close> on
  \<^verbatim>\<open>http://[::1\<close>, whose network location has an opening bracket and no closing one:
  the update does not return and the interactive URL is not the new base.
\<close>

theorem unbalanced_bracket_counterexample:
  "fst (update_base_url no_validation (PStr ''http://[::1'') (URLConfig loaded)) =
     Inl (ValueError ''Invalid IPv6 URL'')
   \<and> INTERACTIVE_URL (snd (update_base_url no_validation (PStr ''http://[::1'') (URLConfig loaded)))
       = Some ''http://xtstradingnse.aryafingroup.in:3000''
   \<and> INTERACTIVE_URL (snd (update_base_url no_validation (PStr ''http://[::1'') (URLConfig loaded)))
       \<noteq> Some ''http://[::1''"
  by code_simp

text \<open>
  C4. If the Stage 1 host-lookup request raises an exception \<open>x\<close>, then
  \<^verbatim>\<open>authenticate_broker\<close> returns \<^verbatim>\<open>(None, None, None, error)\<close> where the error is
  \<^verbatim>\<open>"Error during hostlookup: "\<close> followed by the text of \<open>x\<close>, and the only request
  sent in the run is the host lookup: neither the session login nor the feed login is
  attempted. The registry is untouched.
\<close>

theorem stage1_exception_stops_run:
  assumes "post e (sent w) (hostlookup_request e (URLConfig w)) = Raises x"
  shows "authenticate_broker e request_token w =
    (Inr (PNone, PNone, PNone, Some (''Error during hostlookup: '' @ str_exn x)),
     w\<lparr>sent := sent w @ [hostlookup_request e (URLConfig w)]\<rparr>)"
  using assms
  by (simp add: authenticate_broker_def authenticate_broker_try_def hostlookup_login_def
       hostlookup_login_try_def comp_defs)

theorem stage1_exception_stops_run_witness:
  "authenticate_broker (script_env [timed_out]) (PStr ''rt'') loaded =
    (Inr (PNone, PNone, PNone, Some ''Error during hostlookup: timed out''),
     loaded\<lparr>sent := [hostlookup_request (script_env [timed_out]) (URLConfig loaded)]\<rparr>)"
proof -
  have h: "post (script_env [timed_out]) (sent loaded)
             (hostlookup_request (script_env [timed_out]) (URLConfig loaded))
           = Raises (OtherError ''timed out'')"
    by (simp add: script_env_def scripted_def timed_out_def loaded_def)
  show ?thesis
    using stage1_exception_stops_run [OF h, of "PStr ''rt''"] by (simp add: loaded_def)
qed

text \<open>
  C5. For every lookup response with status 200: when its JSON has
  \<^verbatim>\<open>result.connectionString\<close> and \<^verbatim>\<open>result.uniqueKey\<close> both present and true (non-empty),
  \<^verbatim>\<open>hostlookup_login\<close> returns the two values unchanged with the error \<^verbatim>\<open>None\<close>; when
  \<^verbatim>\<open>uniqueKey\<close> or \<^verbatim>\<open>connectionString\<close> is missing, in whichever way (a body that does
  not decode or is not an object, no \<^verbatim>\<open>result\<close>, a \<^verbatim>\<open>result\<close> that is null or not an
  object, or a \<^verbatim>\<open>result\<close> object without the key), it returns \<^verbatim>\<open>(None, None, e)\<close> with an
  error string \<open>e\<close>; and when the \<^verbatim>\<open>result\<close> is an object without one of the keys,
  \<open>e\<close> is the message of an incomplete response.
\<close>

theorem hostlookup_login_fields:
  assumes "post e (sent w) (hostlookup_request e (URLConfig w)) = Responds r"
      and "status_code r = 200"
  shows "(\<forall>cs uk. lookup_field r ''connectionString'' = Some cs \<and> lookup_field r ''uniqueKey'' = Some uk
            \<and> py_truthy cs \<and> py_truthy uk \<longrightarrow>
          hostlookup_login e w =
            (Inr (cs, uk, None), w\<lparr>sent := sent w @ [hostlookup_request e (URLConfig w)]\<rparr>))
       \<and> (lookup_field r ''uniqueKey'' = None \<or> lookup_field r ''connectionString'' = None \<longrightarrow>
          (\<exists>msg. hostlookup_login e w =
            (Inr (PNone, PNone, Some msg), w\<lparr>sent := sent w @ [hostlookup_request e (URLConfig w)]\<rparr>)))
       \<and> (\<forall>obj kvs. json r = Inr (PDict obj) \<and> map_of obj ''result'' = Some (PDict kvs)
            \<and> (map_of kvs ''uniqueKey'' = None \<or> map_of kvs ''connectionString'' = None) \<longrightarrow>
          hostlookup_login e w =
            (Inr (PNone, PNone, Some ''Error during hostlookup: Incomplete response data.''),
             w\<lparr>sent := sent w @ [hostlookup_request e (URLConfig w)]\<rparr>))"
proof (intro conjI allI impI)
  fix cs uk
  assume "lookup_field r ''connectionString'' = Some cs \<and> lookup_field r ''uniqueKey'' = Some uk
            \<and> py_truthy cs \<and> py_truthy uk"
  then show "hostlookup_login e w =
            (Inr (cs, uk, None), w\<lparr>sent := sent w @ [hostlookup_request e (URLConfig w)]\<rparr>)"
    using hostlookup_login_complete [OF assms, of cs uk] by simp
next
  assume "lookup_field r ''uniqueKey'' = None \<or> lookup_field r ''connectionString'' = None"
  then show "\<exists>msg. hostlookup_login e w =
            (Inr (PNone, PNone, Some msg), w\<lparr>sent := sent w @ [hostlookup_request e (URLConfig w)]\<rparr>)"
    by (rule hostlookup_login_missing [OF assms])
next
  fix obj kvs
  assume "json r = Inr (PDict obj) \<and> map_of obj ''result'' = Some (PDict kvs)
            \<and> (map_of kvs ''uniqueKey'' = None \<or> map_of kvs ''connectionString'' = None)"
  then show "hostlookup_login e w =
            (Inr (PNone, PNone, Some ''Error during hostlookup: Incomplete response data.''),
             w\<lparr>sent := sent w @ [hostlookup_request e (URLConfig w)]\<rparr>)"
    using hostlookup_login_incomplete [OF assms, of obj kvs] by simp
qed

theorem hostlookup_login_fields_witness:
  "fst (hostlookup_login (script_env [Responds lookup_ok]) loaded) =
     Inr (PStr ''http://host:3000/2hostlookup'', PStr ''K0j+aTs2'', None)
   \<and> fst (hostlookup_login (script_env [Responds lookup_no_key]) loaded) =
     Inr (PNone, PNone, Some ''Error during hostlookup: Incomplete response data.'')
   \<and> (\<exists>msg. fst (hostlookup_login (script_env [Responds lookup_no_result]) loaded) =
     Inr (PNone, PNone, Some msg))
   \<and> (\<exists>msg. fst (hostlookup_login (script_env [Responds lookup_not_object]) loaded) =
     Inr (PNone, PNone, Some msg))"
proof -
  let ?rq = "\<lambda>e. hostlookup_request e (URLConfig loaded)"
  have a: "post (script_env [Responds lookup_ok]) (sent loaded) (?rq (script_env [Responds lookup_ok]))
           = Responds lookup_ok"
    by (simp add: fixture_defs)
  have a200: "status_code lookup_ok = 200"
    by (simp add: lookup_ok_def)
  have af: "lookup_field lookup_ok ''connectionString'' = Some (PStr ''http://host:3000/2hostlookup'')
            \<and> lookup_field lookup_ok ''uniqueKey'' = Some (PStr ''K0j+aTs2'')
            \<and> py_truthy (PStr ''http://host:3000/2hostlookup'') \<and> py_truthy (PStr ''K0j+aTs2'')"
    by (simp add: lookup_ok_def lookup_field_def)
  have b: "post (script_env [Responds lookup_no_key]) (sent loaded) (?rq (script_env [Responds lookup_no_key]))
           = Responds lookup_no_key"
    by (simp add: fixture_defs)
  have b200: "status_code lookup_no_key = 200"
    by (simp add: lookup_no_key_def)
  have bf: "json lookup_no_key = Inr (PDict [(''type'', PBool True),
               (''result'', PDict [(''connectionString'', PStr ''http://host:3000/2hostlookup'')])])
            \<and> map_of [(''type'', PBool True),
               (''result'', PDict [(''connectionString'', PStr ''http://host:3000/2hostlookup'')])] ''result''
               = Some (PDict [(''connectionString'', PStr ''http://host:3000/2hostlookup'')])
            \<and> (map_of [(''connectionString'', PStr ''http://host:3000/2hostlookup'')] ''uniqueKey'' = None
               \<or> map_of [(''connectionString'', PStr ''http://host:3000/2hostlookup'')] ''connectionString'' = None)"
    by (simp add: lookup_no_key_def)
  have c: "post (script_env [Responds lookup_no_result]) (sent loaded)
             (?rq (script_env [Responds lookup_no_result])) = Responds lookup_no_result"
    by (simp add: fixture_defs)
  have c200: "status_code lookup_no_result = 200"
    by (simp add: lookup_no_result_def)
  have cf: "lookup_field lookup_no_result ''uniqueKey'' = None"
    by (simp add: lookup_no_result_def lookup_field_def)
  have d: "post (script_env [Responds lookup_not_object]) (sent loaded)
             (?rq (script_env [Responds lookup_not_object])) = Responds lookup_not_object"
    by (simp add: fixture_defs)
  have d200: "status_code lookup_not_object = 200"
    by (simp add: lookup_not_object_def)
  have df: "lookup_field lookup_not_object ''uniqueKey'' = None"
    by (simp add: lookup_not_object_def lookup_field_def)
  have "fst (hostlookup_login (script_env [Responds lookup_ok]) loaded) =
     Inr (PStr ''http://host:3000/2hostlookup'', PStr ''K0j+aTs2'', None)"
    using hostlookup_login_fields [OF a a200] af by simp
  moreover have "fst (hostlookup_login (script_env [Responds lookup_no_key]) loaded) =
     Inr (PNone, PNone, Some ''Error during hostlookup: Incomplete response data.'')"
    using hostlookup_login_fields [OF b b200] bf by simp
  moreover have "\<exists>msg. fst (hostlookup_login (script_env [Responds lookup_no_result]) loaded) =
     Inr (PNone, PNone, Some msg)"
    using hostlookup_login_fields [OF c c200] cf by auto
  moreover have "\<exists>msg. fst (hostlookup_login (script_env [Responds lookup_not_object]) loaded) =
     Inr (PNone, PNone, Some msg)"
    using hostlookup_login_fields [OF d d200] df by auto
  ultimately show ?thesis by simp
qed

text \<open>
  C6. The registry is meant to keep its derived URLs consistent with the current
  \<^verbatim>\<open>BASE_URL\<close> after loading and after every \<^verbatim>\<open>update_base_url\<close>. Loading does, and so
  does every update that returns (\<open>module_init_consistent\<close>,
  \<open>update_base_url_consistent\<close>). An update whose \<^verbatim>\<open>urlparse\<close> raises does not: the
  new base URL is already stored when the exception leaves, and the derived URLs are
  still those of the old one, as the call with \<^verbatim>\<open>http://[::1\<close> shows.
  \<^verbatim>\<open>authenticate_broker\<close> swallows that exception: a run in which the broker hands out
  the connection string \<^verbatim>\<open>http://[host\<close> and the session login is answered with status
  200 returns normally and leaves the registry in that state.
\<close>

theorem failed_update_leaves_stale_urls:
  "update_base_url chk (PStr ''http://[::1'') (snd (module_init chk)) =
     (Inl (ValueError ''Invalid IPv6 URL''),
      \<lparr> HOST_LOOKUP_URL = ''http://xtstradingnse.aryafingroup.in:3000/hostlookup'',
        BASE_URL = PStr ''http://[::1'',
        MARKET_DATA_URL = Some ''http://xtstradingnse.aryafingroup.in:3000/apimarketdata'',
        INTERACTIVE_URL = Some ''http://xtstradingnse.aryafingroup.in:3000'' \<rparr>)
   \<and> \<not> derived_urls_consistent chk (snd (update_base_url chk (PStr ''http://[::1'') (snd (module_init chk))))
   \<and> authenticate_broker bracket_host_env (PStr ''rt'') loaded =
       (Inr (PNone, PNone, PNone, Some ''Error during authentication: Invalid IPv6 URL''),
        \<lparr>URLConfig =
           \<lparr> HOST_LOOKUP_URL = ''http://xtstradingnse.aryafingroup.in:3000/hostlookup'',
             BASE_URL = PStr ''http://[host'',
             MARKET_DATA_URL = Some ''http://xtstradingnse.aryafingroup.in:3000/apimarketdata'',
             INTERACTIVE_URL = Some ''http://xtstradingnse.aryafingroup.in:3000'' \<rparr>,
         sent =
           [hostlookup_request bracket_host_env (URLConfig loaded),
            session_request bracket_host_env (PStr ''http://[host'') (PStr ''K0j+aTs2'')]\<rparr>)
   \<and> \<not> derived_urls_consistent no_validation
         (URLConfig (snd (authenticate_broker bracket_host_env (PStr ''rt'') loaded)))"
proof -
  have "update_base_url chk (PStr ''http://[::1'') (snd (module_init chk)) =
     (Inl (ValueError ''Invalid IPv6 URL''),
      \<lparr> HOST_LOOKUP_URL = ''http://xtstradingnse.aryafingroup.in:3000/hostlookup'',
        BASE_URL = PStr ''http://[::1'',
        MARKET_DATA_URL = Some ''http://xtstradingnse.aryafingroup.in:3000/apimarketdata'',
        INTERACTIVE_URL = Some ''http://xtstradingnse.aryafingroup.in:3000'' \<rparr>)"
    by (simp add: update_base_url_def update_derived_urls_def module_init_def class_body_def urlsplit_defs)
  moreover have "\<not> derived_urls_consistent chk
      (snd (update_base_url chk (PStr ''http://[::1'') (snd (module_init chk))))"
    by (simp add: update_base_url_def update_derived_urls_def module_init_def class_body_def urlsplit_defs
        derived_urls_consistent_def)
  moreover have "authenticate_broker bracket_host_env (PStr ''rt'') loaded =
       (Inr (PNone, PNone, PNone, Some ''Error during authentication: Invalid IPv6 URL''),
        \<lparr>URLConfig =
           \<lparr> HOST_LOOKUP_URL = ''http://xtstradingnse.aryafingroup.in:3000/hostlookup'',
             BASE_URL = PStr ''http://[host'',
             MARKET_DATA_URL = Some ''http://xtstradingnse.aryafingroup.in:3000/apimarketdata'',
             INTERACTIVE_URL = Some ''http://xtstradingnse.aryafingroup.in:3000'' \<rparr>,
         sent =
           [hostlookup_request bracket_host_env (URLConfig loaded),
            session_request bracket_host_env (PStr ''http://[host'') (PStr ''K0j+aTs2'')]\<rparr>)"
    by code_simp
  moreover have "\<not> derived_urls_consistent no_validation
         (URLConfig (snd (authenticate_broker bracket_host_env (PStr ''rt'') loaded)))"
    by code_simp
  ultimately show ?thesis by simp
qed

text \<open>
  C7. \<^verbatim>\<open>authenticate_broker\<close> never returns a session token without having attempted the
  feed login in the same call: in every run whose tuple has a first component other
  than \<^verbatim>\<open>None\<close>, the requests sent in the run are the host lookup, the session login and
  then the feed login, and the session login was answered with status 200 and a JSON
  body whose \<^verbatim>\<open>type\<close> is \<^verbatim>\<open>"success"\<close>.
\<close>

theorem token_needs_feed_attempt:
  assumes run: "authenticate_broker e t w = (Inr (tok, ft, uid, err), w')"
      and tok: "tok \<noteq> PNone"
  shows "\<exists>cs uk r result m.
           sent w' = sent w @ [hostlookup_request e (URLConfig w), session_request e cs uk, feed_request e m]
         \<and> post e (sent w @ [hostlookup_request e (URLConfig w)]) (session_request e cs uk) = Responds r
         \<and> status_code r = 200 \<and> json r = Inr result
         \<and> dict_get result ''type'' PNone = Inr (PStr ''success'')"
proof -
  define w1 where "w1 = w\<lparr>sent := sent w @ [hostlookup_request e (URLConfig w)]\<rparr>"
  obtain cs uk herr where h1: "hostlookup_login e w = (Inr (cs, uk, herr), w1)"
    using hostlookup_login_result [of e w] unfolding w1_def by (metis prod_cases3)
  show ?thesis
  proof (cases "post e (sent w1) (session_request e cs uk)")
    case (Raises x)
    with run tok h1 show ?thesis
      by (auto simp add: authenticate_broker_def authenticate_broker_try_def comp_defs split: if_splits)
  next
    case (Responds r)
    define w2 where "w2 = w1\<lparr>sent := sent w1 @ [session_request e cs uk]\<rparr>"
    show ?thesis
    proof (cases "update_base_url (check_bracketed_netloc e) cs (URLConfig w2)")
      case (Pair u cls)
      define w3 where "w3 = w2\<lparr>URLConfig := cls\<rparr>"
      show ?thesis
      proof (cases rule: get_feed_token_cases [of w3 e])
        case (unloaded msg)
        with run tok h1 Responds Pair show ?thesis
          using update_base_url_returns [of "check_bracketed_netloc e" cs "URLConfig w2" cls]
          by (auto simp add: authenticate_broker_def authenticate_broker_try_def comp_defs w2_def w3_def
              split: if_splits sum.splits)
      next
        case (posted m fft fuid ferr)
        with run tok h1 Responds Pair show ?thesis
          by (auto simp add: authenticate_broker_def authenticate_broker_try_def comp_defs
              w1_def w2_def w3_def after_feed_token_def
              split: if_splits sum.splits option.splits) blast+
      qed
    qed
  qed
qed

theorem token_needs_feed_attempt_witness:
  "\<exists>cs uk r result m.
      sent (snd (authenticate_broker happy_env PNone loaded)) =
        sent loaded @ [hostlookup_request happy_env (URLConfig loaded),
           session_request happy_env cs uk, feed_request happy_env m]
      \<and> post happy_env (sent loaded @ [hostlookup_request happy_env (URLConfig loaded)])
            (session_request happy_env cs uk) = Responds r
      \<and> status_code r = 200 \<and> json r = Inr result
      \<and> dict_get result ''type'' PNone = Inr (PStr ''success'')"
proof -
  have "PStr ''tok1'' \<noteq> PNone" by simp
  from token_needs_feed_attempt [OF full_run this] show ?thesis
    by (simp only: full_run snd_conv)
qed




text \<open>
  C9. The parameter \<^verbatim>\<open>request_token\<close> of \<^verbatim>\<open>authenticate_broker\<close> is dead: with the
  environment, the HTTP client and the world held fixed, any two values of it give the
  same returned tuple and the same final world (registry and requests sent).
\<close>

theorem request_token_is_dead:
  "authenticate_broker e t1 w = authenticate_broker e t2 w"
  by (simp add: authenticate_broker_def authenticate_broker_try_def)

theorem request_token_is_dead_witness:
  "authenticate_broker happy_env (PStr ''abc'') loaded = authenticate_broker happy_env PNone loaded"
  using request_token_is_dead [of happy_env "PStr ''abc''" loaded PNone]
  by simp

text \<open>
  C10. When the feed-login response has status 200 and a JSON object whose \<^verbatim>\<open>type\<close> is
  \<^verbatim>\<open>"success"\<close> and whose \<^verbatim>\<open>result\<close> is an object, \<^verbatim>\<open>get_feed_token\<close> returns the error
  \<^verbatim>\<open>None\<close> whether or not the \<^verbatim>\<open>result\<close> has the fields \<^verbatim>\<open>token\<close> and \<^verbatim>\<open>userID\<close>: a
  missing field is returned as \<^verbatim>\<open>None\<close> in its place, so the error component alone
  does not tell this response from a fully populated one.
\<close>

theorem feed_success_without_fields:
  assumes "MARKET_DATA_URL (URLConfig w) = Some m"
      and "post e (sent w) (feed_request e m) = Responds r"
      and "status_code r = 200"
      and "json r = Inr (PDict obj)"
      and "map_of obj ''type'' = Some (PStr ''success'')"
      and "map_of obj ''result'' = Some (PDict kvs)"
  shows "get_feed_token e w =
           (Inr (case map_of kvs ''token'' of None \<Rightarrow> PNone | Some v \<Rightarrow> v,
                 case map_of kvs ''userID'' of None \<Rightarrow> PNone | Some v \<Rightarrow> v,
                 None),
            w\<lparr>sent := sent w @ [feed_request e m]\<rparr>)"
  using assms
  by (auto simp add: get_feed_token_def get_feed_token_try_def read_market_data_url_def comp_defs
      split: option.splits)

theorem feed_success_without_fields_witness:
  "fst (get_feed_token (script_env [Responds feed_no_token]) loaded) = Inr (PNone, PStr ''U7'', None)
   \<and> fst (get_feed_token (script_env [Responds feed_ok]) loaded) = Inr (PStr ''feed1'', PStr ''U7'', None)"
proof -
  let ?m = "''http://xtstradingnse.aryafingroup.in:3000/apimarketdata''"
  have a: "post (script_env [Responds feed_no_token]) (sent loaded)
             (feed_request (script_env [Responds feed_no_token]) ?m) = Responds feed_no_token"
    by (simp add: fixture_defs)
  have b: "post (script_env [Responds feed_ok]) (sent loaded)
             (feed_request (script_env [Responds feed_ok]) ?m) = Responds feed_ok"
    by (simp add: fixture_defs)
  have "fst (get_feed_token (script_env [Responds feed_no_token]) loaded) = Inr (PNone, PStr ''U7'', None)"
    using feed_success_without_fields [OF loaded_market a, of _ "[(''userID'', PStr ''U7'')]"]
    by (simp add: feed_no_token_def)
  moreover have "fst (get_feed_token (script_env [Responds feed_ok]) loaded) =
                   Inr (PStr ''feed1'', PStr ''U7'', None)"
    using feed_success_without_fields [OF loaded_market b,
            of _ "[(''token'', PStr ''feed1''), (''userID'', PStr ''U7'')]"]
    by (simp add: feed_ok_def)
  ultimately show ?thesis by simp
qed

end
